theory Spec2Isabelle
  imports Complex_Main "HOL-Library.Word"
begin

section \<open>Python values used by the feed and the brokers\<close>

text \<open>
  A Python \<open>float\<close> is an IEEE binary64 value.  A finite one is kept as the rational
  number it denotes; the two zeros are one value (\<open>0.0 == -0.0\<close> in Python, both are
  falsy, and none of \<open>+\<close>, \<open>-\<close>, \<open>*\<close>, \<open>abs\<close>, \<open><\<close>, \<open>>=\<close> used by the code tells them
  apart).
\<close>

datatype pyfloat = Fin rat | PInf | NInf | NaN

text \<open>
  What \<open>resp.json()\<close> hands to the code: \<open>None\<close>, \<open>bool\<close>, \<open>int\<close>, \<open>float\<close>, \<open>str\<close>,
  \<open>list\<close> and \<open>dict\<close>.  A dict is the list of its items (keys unique, insertion order).
\<close>

datatype json =
    JNull
  | JBool bool
  | JInt int
  | JFloat pyfloat
  | JStr string
  | JArr "json list"
  | JObj "(string \<times> json) list"

type_synonym pydict = "(string \<times> json) list"

text \<open>\<open>d.get(k)\<close>: the value stored under \<open>k\<close>, \<open>None\<close> when the key is missing.\<close>

definition dict_get :: "pydict \<Rightarrow> string \<Rightarrow> json" where
  "dict_get d k = (case map_of d k of None \<Rightarrow> JNull | Some v \<Rightarrow> v)"

text \<open>\<open>d[k] = v\<close>: an existing key keeps its place and takes the new value, a new key is
  appended.\<close>

definition dict_set :: "pydict \<Rightarrow> string \<Rightarrow> json \<Rightarrow> pydict" where
  "dict_set d k v =
     (if map_of d k = None then d @ [(k, v)]
      else map (\<lambda>(k', v'). if k' = k then (k', v) else (k', v')) d)"

datatype side = Buy | Sell

text \<open>
  \<open>trading.types\<close> is not part of the sources at hand; the three dataclasses below carry
  exactly the fields with which the code constructs them.
\<close>

record top_of_book =
  tob_best_bid :: "pyfloat option"
  tob_best_bid_size :: "pyfloat option"
  tob_best_ask :: "pyfloat option"
  tob_best_ask_size :: "pyfloat option"
  tob_ts :: pyfloat

record trade_tick =
  tt_market_id :: string
  tt_price :: pyfloat
  tt_size :: pyfloat
  tt_side :: side
  tt_ts :: pyfloat

record order =
  o_order_id :: string
  o_market_id :: string
  o_side :: side
  o_price :: pyfloat
  o_size :: pyfloat
  o_created_ts :: pyfloat
  o_status :: string
  o_filled_size :: pyfloat


section \<open>The store\<close>

text \<open>
  Modelled from the spec: \<open>storage.sqlite.SqliteStore\<close> is missing from the sources.  The
  spec describes it as a sink with the operations "append tape row" and "upsert component
  status", and the shadow broker "persists the order record" through it.  Each operation
  is therefore a total append to a log kept in call order; the status register's current
  value for a component is the latest row logged for it.
\<close>

datatype tape_payload = TobPayload top_of_book | TradePayload trade_tick

record tape_row =
  tr_ts :: pyfloat
  tr_market_id :: string
  tr_kind :: string
  tr_payload :: tape_payload

record status_row =
  sr_component :: string
  sr_level :: string
  sr_message :: string
  sr_detail :: string
  sr_ts :: pyfloat

record order_row =
  or_order :: order
  or_meta :: pydict

record store =
  tape :: "tape_row list"
  status_log :: "status_row list"
  order_rows :: "order_row list"

definition insert_tape :: "store \<Rightarrow> pyfloat \<Rightarrow> string \<Rightarrow> string \<Rightarrow> tape_payload \<Rightarrow> store" where
  "insert_tape s t mid kind p =
     s\<lparr>tape := tape s @ [\<lparr>tr_ts = t, tr_market_id = mid, tr_kind = kind, tr_payload = p\<rparr>]\<rparr>"

definition upsert_runtime_status ::
  "store \<Rightarrow> string \<Rightarrow> string \<Rightarrow> string \<Rightarrow> string \<Rightarrow> pyfloat \<Rightarrow> store" where
  "upsert_runtime_status s component level message detail t =
     s\<lparr>status_log := status_log s @
        [\<lparr>sr_component = component, sr_level = level, sr_message = message,
          sr_detail = detail, sr_ts = t\<rparr>]\<rparr>"

definition insert_order :: "store \<Rightarrow> order \<Rightarrow> pydict \<Rightarrow> store" where
  "insert_order s o_new meta =
     s\<lparr>order_rows := order_rows s @ [\<lparr>or_order = o_new, or_meta = meta\<rparr>]\<rparr>"


section \<open>execution/base.py and execution/shadow.py\<close>

text \<open>
  \<open>OrderRequest.meta\<close> is a reference to a caller-owned dict (or \<open>None\<close>).  Whether the
  broker writes into that dict is a question of aliasing, so dict objects live in a heap:
  \<open>cells\<close> maps an address to the dict stored there and \<open>next_addr\<close> is the first address
  not yet handed out.
\<close>

record heap =
  cells :: "nat \<Rightarrow> pydict"
  next_addr :: nat

record order_request =
  req_market_id :: string
  req_side :: side
  req_price :: pyfloat
  req_size :: pyfloat
  req_meta :: "nat option"

text \<open>\<open>dict(x)\<close>: a new dict object holding the items of \<open>x\<close>.\<close>

definition dict_copy :: "heap \<Rightarrow> pydict \<Rightarrow> nat \<times> heap" where
  "dict_copy h d =
     (next_addr h, h\<lparr>cells := (cells h)(next_addr h := d), next_addr := Suc (next_addr h)\<rparr>)"

text \<open>\<open>meta[k] = v\<close> on the dict object at address \<open>a\<close>.\<close>

definition heap_setitem :: "heap \<Rightarrow> nat \<Rightarrow> string \<Rightarrow> json \<Rightarrow> heap" where
  "heap_setitem h a k v = h\<lparr>cells := (cells h)(a := dict_set (cells h a) k v)\<rparr>"

text \<open>\<open>req.meta or {}\<close>: the items of the caller's dict, none when \<open>meta\<close> is \<open>None\<close> (an empty
  dict is falsy and is replaced by the equally empty literal).\<close>

definition meta_or_empty :: "heap \<Rightarrow> order_request \<Rightarrow> pydict" where
  "meta_or_empty h req = (case req_meta req of None \<Rightarrow> [] | Some a \<Rightarrow> cells h a)"

text \<open>
  \<open>str(uuid.uuid4())\<close>: the 128 bits come from the system's random source and are an
  input here; \<open>str\<close> prints them as 32 lower-case hexadecimal digits in groups of
  8-4-4-4-12.
\<close>

definition hex_digit :: "nat \<Rightarrow> char" where
  "hex_digit n = ''0123456789abcdef'' ! (n mod 16)"

definition nibble :: "128 word \<Rightarrow> nat \<Rightarrow> nat" where
  "nibble u i = unat (drop_bit (4 * i) u) mod 16"

definition hex32 :: "128 word \<Rightarrow> string" where
  "hex32 u = map (\<lambda>i. hex_digit (nibble u i)) (rev [0..<32])"

definition uuid_str :: "128 word \<Rightarrow> string" where
  "uuid_str u =
     (let h = hex32 u
      in take 8 h @ ''-'' @ take 4 (drop 8 h) @ ''-'' @ take 4 (drop 12 h) @ ''-'' @
         take 4 (drop 16 h) @ ''-'' @ drop 20 h)"

datatype log_entry =
    LogOrderShadow order pydict
  | LogCancelShadow string
  | LogCancelAllMarketShadow string

text \<open>What a broker call can touch: the dict heap, the store and the structured log.\<close>

record world =
  w_heap :: heap
  w_store :: store
  w_log :: "log_entry list"

text \<open>
  \<open>ShadowBroker.place_limit\<close>.  \<open>u\<close> is the value drawn by \<open>uuid.uuid4()\<close> and \<open>now\<close> the
  reading of \<open>time.time()\<close>.  \<open>float(req.price)\<close> and \<open>float(req.size)\<close> are the identity on
  the floats the dataclass declares.
\<close>

definition place_limit :: "128 word \<Rightarrow> pyfloat \<Rightarrow> order_request \<Rightarrow> world \<Rightarrow> order \<times> world" where
  "place_limit u now req w =
     (let oid = uuid_str u;
          o_new = \<lparr>o_order_id = oid, o_market_id = req_market_id req, o_side = req_side req,
                   o_price = req_price req, o_size = req_size req, o_created_ts = now,
                   o_status = ''rejected'', o_filled_size = Fin 0\<rparr>;
          (meta, h1) = dict_copy (w_heap w) (meta_or_empty (w_heap w) req);
          h2 = heap_setitem h1 meta ''execution_mode'' (JStr ''shadow'');
          s1 = insert_order (w_store w) o_new (cells h2 meta);
          l1 = w_log w @ [LogOrderShadow o_new (cells h2 meta)]
      in (o_new, \<lparr>w_heap = h2, w_store = s1, w_log = l1\<rparr>))"

definition cancel :: "string \<Rightarrow> world \<Rightarrow> world" where
  "cancel order_id w = w\<lparr>w_log := w_log w @ [LogCancelShadow order_id]\<rparr>"

definition cancel_all_market :: "string \<Rightarrow> world \<Rightarrow> world" where
  "cancel_all_market market_id w = w\<lparr>w_log := w_log w @ [LogCancelAllMarketShadow market_id]\<rparr>"

text \<open>\<open>Broker.on_trade\<close> (the default of the base class), \<open>ShadowBroker.on_book\<close> and
  \<open>ShadowBroker.on_trade\<close>: the arguments are bound to \<open>_\<close> and an empty list is returned.
  The element type \<open>Fill\<close> is declared outside the sources and stays a type parameter.\<close>

definition broker_on_trade :: "string \<Rightarrow> trade_tick \<Rightarrow> 'fill list" where
  "broker_on_trade market_id trade = []"

definition shadow_on_book :: "string \<Rightarrow> top_of_book \<Rightarrow> 'fill list" where
  "shadow_on_book market_id tob = []"

definition shadow_on_trade :: "string \<Rightarrow> trade_tick \<Rightarrow> 'fill list" where
  "shadow_on_trade market_id trade = []"


section \<open>IEEE binary64 arithmetic\<close>

text \<open>
  Python's \<open>+\<close>, \<open>-\<close> and \<open>*\<close> on floats return the exact result rounded to the nearest
  double, ties to the even significand.  \<open>round_double\<close> does that for a rational: the
  spacing of doubles around a value with binary exponent \<open>e\<close> is \<open>2 ^ (e - 52)\<close>, never
  below \<open>2 ^ -1074\<close> (the subnormal range), and a result that reaches \<open>2 ^ 1024\<close> is an
  infinity.
\<close>

function bitlen :: "int \<Rightarrow> int" where
  "bitlen n = (if n \<le> 0 then 0 else 1 + bitlen (n div 2))"
  by pat_completeness auto
termination
  by (relation "measure nat") auto

definition pow2 :: "int \<Rightarrow> rat" where
  "pow2 e = (if 0 \<le> e then 2 ^ nat e else 1 / 2 ^ nat (- e))"

text \<open>The binary exponent of a positive rational: the \<open>e\<close> with \<open>2 ^ e \<le> q < 2 ^ (e + 1)\<close>.\<close>

definition ilog2 :: "rat \<Rightarrow> int" where
  "ilog2 q =
     (let (n, d) = quotient_of q;
          e0 = bitlen n - bitlen d
      in if pow2 e0 \<le> q then e0 else e0 - 1)"

definition round_half_even :: "rat \<Rightarrow> int" where
  "round_half_even q =
     (let f = \<lfloor>q\<rfloor>; r = q - of_int f
      in if r < 1 / 2 then f else if 1 / 2 < r then f + 1 else if even f then f else f + 1)"

definition round_double :: "rat \<Rightarrow> pyfloat" where
  "round_double q =
     (if q = 0 then Fin 0
      else let a = \<bar>q\<bar>;
               p = max (ilog2 a - 52) (- 1074);
               r = of_int (round_half_even (a / pow2 p)) * pow2 p
           in if 2 ^ 1024 \<le> r then (if q < 0 then NInf else PInf)
              else Fin (if q < 0 then - r else r))"

definition f_neg :: "pyfloat \<Rightarrow> pyfloat" where
  "f_neg x = (case x of Fin a \<Rightarrow> Fin (- a) | PInf \<Rightarrow> NInf | NInf \<Rightarrow> PInf | NaN \<Rightarrow> NaN)"

definition f_abs :: "pyfloat \<Rightarrow> pyfloat" where
  "f_abs x = (case x of Fin a \<Rightarrow> Fin \<bar>a\<bar> | PInf \<Rightarrow> PInf | NInf \<Rightarrow> PInf | NaN \<Rightarrow> NaN)"

fun f_add :: "pyfloat \<Rightarrow> pyfloat \<Rightarrow> pyfloat" where
  "f_add (Fin a) (Fin b) = round_double (a + b)"
| "f_add NaN y = NaN"
| "f_add x NaN = NaN"
| "f_add PInf NInf = NaN"
| "f_add NInf PInf = NaN"
| "f_add PInf y = PInf"
| "f_add x PInf = PInf"
| "f_add NInf y = NInf"
| "f_add x NInf = NInf"

definition f_sub :: "pyfloat \<Rightarrow> pyfloat \<Rightarrow> pyfloat" where
  "f_sub x y = f_add x (f_neg y)"

definition f_sign :: "pyfloat \<Rightarrow> int" where
  "f_sign x =
     (case x of Fin a \<Rightarrow> (if a < 0 then - 1 else if a = 0 then 0 else 1)
      | PInf \<Rightarrow> 1 | NInf \<Rightarrow> - 1 | NaN \<Rightarrow> 0)"

definition f_mul :: "pyfloat \<Rightarrow> pyfloat \<Rightarrow> pyfloat" where
  "f_mul x y =
     (case (x, y) of
        (Fin a, Fin b) \<Rightarrow> round_double (a * b)
      | _ \<Rightarrow> if x = NaN \<or> y = NaN \<or> f_sign x * f_sign y = 0 then NaN
             else if 0 < f_sign x * f_sign y then PInf else NInf)"

text \<open>Comparisons: every comparison with a NaN is false, except \<open>!=\<close>.\<close>

fun f_lt :: "pyfloat \<Rightarrow> pyfloat \<Rightarrow> bool" where
  "f_lt NaN y = False"
| "f_lt x NaN = False"
| "f_lt (Fin a) (Fin b) = (a < b)"
| "f_lt NInf NInf = False"
| "f_lt NInf y = True"
| "f_lt x NInf = False"
| "f_lt PInf y = False"
| "f_lt x PInf = True"

definition f_eq :: "pyfloat \<Rightarrow> pyfloat \<Rightarrow> bool" where
  "f_eq x y = (x = y \<and> x \<noteq> NaN)"

definition f_ge :: "pyfloat \<Rightarrow> pyfloat \<Rightarrow> bool" where
  "f_ge x y = (f_lt y x \<or> f_eq x y)"

text \<open>The literals \<open>1e-9\<close> and \<open>0.5\<close> as the doubles the compiler makes of them.\<close>

definition c_1e_9 :: pyfloat where
  "c_1e_9 = Fin (4835703278458517 / 2 ^ 82)"

definition c_half :: pyfloat where
  "c_half = Fin (1 / 2)"


section \<open>Python built-ins\<close>

text \<open>
  The conversions between text and numbers belong to the language, not to the repository.
  Those with a simple definition are written out; \<open>float\<close> of a \<open>str\<close> (\<open>None\<close> stands for
  its \<open>ValueError\<close>), \<open>str\<close> of a float and \<open>str\<close> of a list or dict are parameters.
\<close>

record builtins =
  float_of_str :: "string \<Rightarrow> pyfloat option"
  str_of_float :: "pyfloat \<Rightarrow> string"
  str_of_container :: "json \<Rightarrow> string"

text \<open>Truth value of an object, as \<open>or\<close>, \<open>not\<close> and \<open>if\<close> test it.\<close>

definition truthy :: "json \<Rightarrow> bool" where
  "truthy v =
     (case v of
        JNull \<Rightarrow> False
      | JBool b \<Rightarrow> b
      | JInt i \<Rightarrow> i \<noteq> 0
      | JFloat f \<Rightarrow> f \<noteq> Fin 0
      | JStr s \<Rightarrow> s \<noteq> []
      | JArr xs \<Rightarrow> xs \<noteq> []
      | JObj d \<Rightarrow> d \<noteq> [])"

text \<open>\<open>a or b\<close>: \<open>a\<close> when it is truthy, \<open>b\<close> otherwise.\<close>

definition py_or :: "json \<Rightarrow> json \<Rightarrow> json" where
  "py_or a b = (if truthy a then a else b)"

text \<open>\<open>float(i)\<close> of an int: correctly rounded, \<open>OverflowError\<close> (here \<open>None\<close>) beyond the
  range of doubles.\<close>

definition float_of_int :: "int \<Rightarrow> pyfloat option" where
  "float_of_int i =
     (case round_double (of_int i) of Fin a \<Rightarrow> Some (Fin a) | PInf \<Rightarrow> None | NInf \<Rightarrow> None
      | NaN \<Rightarrow> None)"

fun show_nat :: "nat \<Rightarrow> string" where
  "show_nat n =
     (if n < 10 then [''0123456789'' ! n] else show_nat (n div 10) @ [''0123456789'' ! (n mod 10)])"

definition show_int :: "int \<Rightarrow> string" where
  "show_int i = (if i < 0 then ''-'' @ show_nat (nat (- i)) else show_nat (nat i))"

definition py_str :: "builtins \<Rightarrow> json \<Rightarrow> string" where
  "py_str B v =
     (case v of
        JNull \<Rightarrow> ''None''
      | JBool b \<Rightarrow> (if b then ''True'' else ''False'')
      | JInt i \<Rightarrow> show_int i
      | JFloat f \<Rightarrow> str_of_float B f
      | JStr s \<Rightarrow> s
      | JArr xs \<Rightarrow> str_of_container B v
      | JObj d \<Rightarrow> str_of_container B v)"

text \<open>
  The characters \<open>str.strip()\<close> removes, among the code points below 256 that a \<open>char\<close>
  stands for: tab to carriage return, the four separators 28 to 31, the space, NEL and the
  no-break space.
\<close>

definition py_isspace :: "char \<Rightarrow> bool" where
  "py_isspace c =
     (let n = (of_char c :: nat)
      in (9 \<le> n \<and> n \<le> 13) \<or> (28 \<le> n \<and> n \<le> 32) \<or> n = 133 \<or> n = 160)"

text \<open>\<open>not s.strip()\<close>: nothing is left of \<open>s\<close> once the white space is stripped.\<close>

definition blank :: "string \<Rightarrow> bool" where
  "blank s = list_all py_isspace s"


section \<open>connectors/polymarket/gamma\_poll\_stream.py\<close>

record gamma_stream =
  gs_base :: string
  gs_poll :: pyfloat
  gs_limit :: int
  gs_last :: "string \<rightharpoonup> (pyfloat option \<times> pyfloat option)"
  gs_last_trade_px :: "string \<rightharpoonup> pyfloat option"
  gs_log :: "string list"

text \<open>\<open>__init__\<close>: \<open>base_url.rstrip("/")\<close>, \<open>max(0.25, float(poll_secs))\<close>, \<open>int(limit)\<close> and two
  empty dicts.\<close>

definition py_max :: "pyfloat \<Rightarrow> pyfloat \<Rightarrow> pyfloat" where
  "py_max a b = (if f_lt a b then b else a)"

definition new_stream :: "string \<Rightarrow> pyfloat \<Rightarrow> int \<Rightarrow> gamma_stream" where
  "new_stream base_url poll_secs limit =
     \<lparr>gs_base = rev (dropWhile (\<lambda>c. c = CHR ''/'') (rev base_url)),
      gs_poll = py_max (Fin (1 / 4)) poll_secs,
      gs_limit = limit,
      gs_last = Map.empty,
      gs_last_trade_px = Map.empty,
      gs_log = []\<rparr>"

datatype feed_event =
    BookEvent string string top_of_book
  | TradeEvent string string trade_tick

text \<open>An instance of \<open>Exception\<close>, as \<open>except Exception as e\<close> binds it: \<open>type(e).__name__\<close>
  and \<open>str(e)\<close>.\<close>

record exn =
  exn_type :: string
  exn_msg :: string

text \<open>\<open>want = [str(x) for x in (market_ids_provider() or []) if str(x).strip()]\<close>, for a
  provider that returns market ids as strings, or \<open>None\<close>.\<close>

definition want_of :: "string list option \<Rightarrow> string list" where
  "want_of ids = filter (\<lambda>x. \<not> blank x) (case ids of None \<Rightarrow> [] | Some xs \<Rightarrow> xs)"

text \<open>Lines 66 to 70: the lookup \<open>by_id\<close>.  A later record with the same id replaces an
  earlier one.\<close>

definition add_record :: "builtins \<Rightarrow> (string \<rightharpoonup> pydict) \<Rightarrow> json \<Rightarrow> (string \<rightharpoonup> pydict)" where
  "add_record B by_id m =
     (case m of
        JObj d \<Rightarrow> (if dict_get d ''id'' \<noteq> JNull then by_id(py_str B (dict_get d ''id'') \<mapsto> d)
                  else by_id)
      | _ \<Rightarrow> by_id)"

definition build_by_id :: "builtins \<Rightarrow> json \<Rightarrow> (string \<rightharpoonup> pydict)" where
  "build_by_id B data =
     (case data of JArr ms \<Rightarrow> foldl (add_record B) Map.empty ms | _ \<Rightarrow> Map.empty)"

text \<open>\<open>_to_float\<close>: \<open>None\<close> stays \<open>None\<close>; otherwise \<open>float(v)\<close>, and \<open>None\<close> when it raises
  (\<open>ValueError\<close> for text that is no number, \<open>OverflowError\<close> for a huge int, \<open>TypeError\<close> for
  a list or dict).\<close>

definition to_float :: "builtins \<Rightarrow> json \<Rightarrow> pyfloat option" where
  "to_float B v =
     (case v of
        JNull \<Rightarrow> None
      | JBool b \<Rightarrow> Some (Fin (if b then 1 else 0))
      | JInt i \<Rightarrow> float_of_int i
      | JFloat f \<Rightarrow> Some f
      | JStr s \<Rightarrow> float_of_str B s
      | JArr xs \<Rightarrow> None
      | JObj d \<Rightarrow> None)"

text \<open>Lines 88 to 90.\<close>

definition parse_best_bid :: "builtins \<Rightarrow> pydict \<Rightarrow> pyfloat option" where
  "parse_best_bid B m = to_float B (py_or (dict_get m ''bestBid'') (dict_get m ''best_bid''))"

definition parse_best_ask :: "builtins \<Rightarrow> pydict \<Rightarrow> pyfloat option" where
  "parse_best_ask B m = to_float B (py_or (dict_get m ''bestAsk'') (dict_get m ''best_ask''))"

definition parse_last_trade_px :: "builtins \<Rightarrow> pydict \<Rightarrow> pyfloat option" where
  "parse_last_trade_px B m =
     to_float B (py_or (dict_get m ''lastTradePrice'') (dict_get m ''last_trade_price''))"

text \<open>
  Follows the spec's words, not the code: "an ordered list of candidate field names per
  logical attribute, resolved via first-present-wins lookup", then the same coercion.
\<close>

fun spec_first_present :: "pydict \<Rightarrow> string list \<Rightarrow> json" where
  "spec_first_present m [] = JNull"
| "spec_first_present m (k # ks) =
     (case map_of m k of Some v \<Rightarrow> v | None \<Rightarrow> spec_first_present m ks)"

definition spec_parse :: "builtins \<Rightarrow> pydict \<Rightarrow> string list \<Rightarrow> pyfloat option" where
  "spec_parse B m ks = to_float B (spec_first_present m ks)"

text \<open>
  \<open>prev != cur\<close> (line 105).  \<open>prev\<close> is \<open>None\<close> or the stored pair; the items of two pairs are
  compared with \<open>==\<close>, where \<open>None\<close> equals only \<open>None\<close>.  A NaN item is taken to be another
  object than the stored one, as it is whenever \<open>float\<close> made it from text; the shortcut by
  which CPython treats one and the same object as equal to itself is not modelled.
\<close>

definition item_eq :: "pyfloat option \<Rightarrow> pyfloat option \<Rightarrow> bool" where
  "item_eq x y =
     (case (x, y) of (None, None) \<Rightarrow> True | (Some a, Some b) \<Rightarrow> f_eq a b | _ \<Rightarrow> False)"

definition pair_ne ::
  "(pyfloat option \<times> pyfloat option) option \<Rightarrow> pyfloat option \<times> pyfloat option \<Rightarrow> bool" where
  "pair_ne prev cur =
     (case prev of None \<Rightarrow> True
      | Some p \<Rightarrow> \<not> (item_eq (fst p) (fst cur) \<and> item_eq (snd p) (snd cur)))"

text \<open>\<open>last_trade_px != prev_trade\<close> (line 115) for a float \<open>last_trade_px\<close>.\<close>

definition trade_ne :: "pyfloat \<Rightarrow> pyfloat option \<Rightarrow> bool" where
  "trade_ne px prev_trade = (case prev_trade of None \<Rightarrow> True | Some q \<Rightarrow> \<not> f_eq px q)"

text \<open>Lines 117 to 127.  Float arithmetic does not raise, so the \<open>except\<close> branch has no
  case of its own.\<close>

definition hits :: "pyfloat \<Rightarrow> pyfloat option \<Rightarrow> bool" where
  "hits px quote = (case quote of None \<Rightarrow> False | Some q \<Rightarrow> f_lt (f_abs (f_sub px q)) c_1e_9)"

definition midpoint :: "pyfloat \<Rightarrow> pyfloat \<Rightarrow> pyfloat" where
  "midpoint best_bid best_ask = f_mul c_half (f_add best_bid best_ask)"

definition infer_side :: "pyfloat option \<Rightarrow> pyfloat option \<Rightarrow> pyfloat \<Rightarrow> side" where
  "infer_side best_bid best_ask last_trade_px =
     (if hits last_trade_px best_ask then Buy
      else if hits last_trade_px best_bid then Sell
      else (case (best_bid, best_ask) of
              (Some b, Some a) \<Rightarrow> (if f_ge last_trade_px (midpoint b a) then Buy else Sell)
            | _ \<Rightarrow> Buy))"

text \<open>What one poll cycle has done so far: the events yielded, the stream's two dicts, the
  store, and the counters \<open>observed\<close> and \<open>changed\<close>.\<close>

record cycle_acc =
  ca_events :: "feed_event list"
  ca_stream :: gamma_stream
  ca_store :: store
  ca_observed :: nat
  ca_changed :: nat

text \<open>Lines 92 to 109: the book half of the loop body.\<close>

definition observe_book ::
  "pyfloat \<Rightarrow> string \<Rightarrow> pyfloat option \<Rightarrow> pyfloat option \<Rightarrow> cycle_acc \<Rightarrow> cycle_acc" where
  "observe_book now market_id best_bid best_ask acc =
     (let gs = ca_stream acc;
          prev = gs_last gs market_id;
          cur = (best_bid, best_ask);
          tob = \<lparr>tob_best_bid = best_bid, tob_best_bid_size = None, tob_best_ask = best_ask,
                 tob_best_ask_size = None, tob_ts = now\<rparr>
      in \<lparr>ca_events = ca_events acc @ [BookEvent ''tob'' market_id tob],
          ca_stream = gs\<lparr>gs_last := (gs_last gs)(market_id \<mapsto> cur)\<rparr>,
          ca_store = (if pair_ne prev cur
                      then insert_tape (ca_store acc) (tob_ts tob) market_id ''tob'' (TobPayload tob)
                      else ca_store acc),
          ca_observed = ca_observed acc + 1,
          ca_changed = (if pair_ne prev cur then ca_changed acc + 1 else ca_changed acc)\<rparr>)"

text \<open>Lines 113 to 137: the trade half.  \<open>dict.get\<close> gives \<open>None\<close> both for a market never
  seen and for one whose stored price is \<open>None\<close>.\<close>

definition observe_trade ::
  "pyfloat \<Rightarrow> string \<Rightarrow> pyfloat option \<Rightarrow> pyfloat option \<Rightarrow> pyfloat option \<Rightarrow> cycle_acc
     \<Rightarrow> cycle_acc" where
  "observe_trade now market_id best_bid best_ask last_trade_px acc =
     (let gs = ca_stream acc;
          prev_trade = (case gs_last_trade_px gs market_id of None \<Rightarrow> None | Some v \<Rightarrow> v);
          acc1 = acc\<lparr>ca_stream := gs\<lparr>gs_last_trade_px :=
                        (gs_last_trade_px gs)(market_id \<mapsto> last_trade_px)\<rparr>\<rparr>
      in case last_trade_px of
           None \<Rightarrow> acc1
         | Some px \<Rightarrow>
             if trade_ne px prev_trade then
               (let trade = \<lparr>tt_market_id = market_id, tt_price = px, tt_size = Fin 1,
                              tt_side = infer_side best_bid best_ask px, tt_ts = now\<rparr>
                in acc1\<lparr>ca_store := insert_tape (ca_store acc1) (tt_ts trade) market_id ''trade''
                                        (TradePayload trade),
                        ca_events := ca_events acc1 @ [TradeEvent ''trade'' market_id trade]\<rparr>)
             else acc1)"

text \<open>Lines 75 to 137: the body of \<open>for market_id in want\<close>.  \<open>not m\<close> holds for a missing
  record and for an empty dict.\<close>

definition process_market ::
  "builtins \<Rightarrow> pyfloat \<Rightarrow> (string \<rightharpoonup> pydict) \<Rightarrow> cycle_acc \<Rightarrow> string \<Rightarrow> cycle_acc" where
  "process_market B now by_id acc market_id =
     (case by_id market_id of
        None \<Rightarrow> acc
      | Some m \<Rightarrow>
          if m = [] then acc
          else observe_trade now market_id (parse_best_bid B m) (parse_best_ask B m)
                 (parse_last_trade_px B m)
                 (observe_book now market_id (parse_best_bid B m) (parse_best_ask B m) acc))"

definition process_markets ::
  "builtins \<Rightarrow> pyfloat \<Rightarrow> (string \<rightharpoonup> pydict) \<Rightarrow> string list \<Rightarrow> cycle_acc \<Rightarrow> cycle_acc" where
  "process_markets B now by_id want acc = foldl (process_market B now by_id) acc want"

text \<open>
  What the world hands to one pass of \<open>while True\<close>: the provider's answer (or the exception
  it raises, outside the \<open>try\<close>), the outcome of lines 61 to 64 (the decoded body, or the
  exception of the connection, of \<open>raise_for_status\<close> or of the decoder), and the two
  readings of the clock.  The sleep is not modelled.
\<close>

record cycle_input =
  ci_provider :: "exn + string list option"
  ci_fetch :: "exn + json"
  ci_now :: pyfloat
  ci_status_ts :: pyfloat

definition ok_message :: "nat \<Rightarrow> nat \<Rightarrow> string" where
  "ok_message observed changed =
     ''gamma polling ok (observed '' @ show_nat observed @ '', changed '' @ show_nat changed @ '')''"

definition ok_detail :: "builtins \<Rightarrow> gamma_stream \<Rightarrow> nat \<Rightarrow> string" where
  "ok_detail B gs n_want =
     ''poll_secs='' @ str_of_float B (gs_poll gs) @ '' limit='' @ show_int (gs_limit gs) @
     '' want='' @ show_nat n_want"

definition error_detail :: "exn \<Rightarrow> string" where
  "error_detail e = exn_type e @ '': '' @ exn_msg e"

text \<open>Lines 72 and 73: nothing yielded, \<open>changed = 0\<close>, \<open>observed = 0\<close>.\<close>

definition start_acc :: "gamma_stream \<Rightarrow> store \<Rightarrow> cycle_acc" where
  "start_acc gs s =
     \<lparr>ca_events = [], ca_stream = gs, ca_store = s, ca_observed = 0, ca_changed = 0\<rparr>"

text \<open>Lines 61 to 145, the body of the \<open>try\<close>: \<open>Inl e\<close> when it raises \<open>e\<close>.\<close>

definition try_body ::
  "builtins \<Rightarrow> cycle_input \<Rightarrow> string list \<Rightarrow> gamma_stream \<Rightarrow> store \<Rightarrow> exn + cycle_acc" where
  "try_body B c want gs s =
     (case ci_fetch c of
        Inl e \<Rightarrow> Inl e
      | Inr data \<Rightarrow>
          (let acc = process_markets B (ci_now c) (build_by_id B data) want (start_acc gs s)
           in Inr (acc\<lparr>ca_store := upsert_runtime_status (ca_store acc) ''feed.gamma'' ''ok''
                                      (ok_message (ca_observed acc) (ca_changed acc))
                                      (ok_detail B gs (length want)) (ci_status_ts c)\<rparr>)))"

text \<open>One pass of \<open>while True\<close>: the events it yields, the stream and store it leaves, and the
  exception that leaves the generator, if any.\<close>

record cycle_result =
  cr_events :: "feed_event list"
  cr_stream :: gamma_stream
  cr_store :: store
  cr_raised :: "exn option"

definition cycle :: "builtins \<Rightarrow> cycle_input \<Rightarrow> gamma_stream \<Rightarrow> store \<Rightarrow> cycle_result" where
  "cycle B c gs s =
     (case ci_provider c of
        Inl e \<Rightarrow> \<lparr>cr_events = [], cr_stream = gs, cr_store = s, cr_raised = Some e\<rparr>
      | Inr ids \<Rightarrow>
          if want_of ids = [] then \<lparr>cr_events = [], cr_stream = gs, cr_store = s, cr_raised = None\<rparr>
          else
            (case try_body B c (want_of ids) gs s of
               Inr acc \<Rightarrow> \<lparr>cr_events = ca_events acc, cr_stream = ca_stream acc,
                           cr_store = ca_store acc, cr_raised = None\<rparr>
             | Inl e \<Rightarrow> \<lparr>cr_events = [],
                          cr_stream = gs\<lparr>gs_log := gs_log gs @ [''gamma_feed.error'']\<rparr>,
                          cr_store = upsert_runtime_status s ''feed.gamma'' ''error''
                                       ''gamma feed failed'' (error_detail e) (ci_status_ts c),
                          cr_raised = None\<rparr>))"



section \<open>Notions used in the statements\<close>

text \<open>A requested id is found when the lookup has a record for it that \<open>not m\<close> lets
  through.\<close>

definition found :: "(string \<rightharpoonup> pydict) \<Rightarrow> string \<Rightarrow> bool" where
  "found by_id market_id = (case by_id market_id of None \<Rightarrow> False | Some m \<Rightarrow> m \<noteq> [])"

fun is_book :: "feed_event \<Rightarrow> bool" where
  "is_book (BookEvent kind market_id tob) = True"
| "is_book (TradeEvent kind market_id trade) = False"

fun event_market :: "feed_event \<Rightarrow> string" where
  "event_market (BookEvent kind market_id tob) = market_id"
| "event_market (TradeEvent kind market_id trade) = market_id"

text \<open>The market ids of the \<open>BookEvent\<close>s among some events, in the order yielded.\<close>

definition book_markets :: "feed_event list \<Rightarrow> string list" where
  "book_markets evs = map event_market (filter is_book evs)"





text \<open>The objects the code builds for a market at time \<open>now\<close>.\<close>

definition tob_of :: "builtins \<Rightarrow> pyfloat \<Rightarrow> pydict \<Rightarrow> top_of_book" where
  "tob_of B now m =
     \<lparr>tob_best_bid = parse_best_bid B m, tob_best_bid_size = None,
      tob_best_ask = parse_best_ask B m, tob_best_ask_size = None, tob_ts = now\<rparr>"

definition trade_of :: "builtins \<Rightarrow> pyfloat \<Rightarrow> string \<Rightarrow> pydict \<Rightarrow> pyfloat \<Rightarrow> trade_tick" where
  "trade_of B now market_id m px =
     \<lparr>tt_market_id = market_id, tt_price = px, tt_size = Fin 1,
      tt_side = infer_side (parse_best_bid B m) (parse_best_ask B m) px, tt_ts = now\<rparr>"








text \<open>
  A stand-in for the three parameters in the worked examples.  It agrees with Python on
  the texts and floats that occur there: \<open>float("nan")\<close> is a NaN, \<open>float("0.5")\<close> is \<open>0.5\<close>,
  \<open>float("n/a")\<close> raises, \<open>str(1.0)\<close> is \<open>"1.0"\<close> and \<open>str(0.25)\<close> is \<open>"0.25"\<close>.
\<close>

definition example_builtins :: builtins where
  "example_builtins =
     \<lparr>float_of_str = (\<lambda>s. if s = ''nan'' then Some NaN
                           else if s = ''0.5'' then Some (Fin (1 / 2)) else None),
      str_of_float = (\<lambda>f. if f = Fin 1 then ''1.0'' else if f = Fin (1 / 4) then ''0.25'' else []),
      str_of_container = (\<lambda>v. [])\<rparr>"

text \<open>
  A snapshot of two markets for the worked examples, a stream as \<open>__init__\<close> makes it
  with the default poll interval and limit, and the input of a pass that requests \<open>ids\<close>
  and fetches that snapshot.
\<close>

definition sample_data :: json where
  "sample_data =
     JArr [JObj [(''id'', JStr ''m1''), (''bestBid'', JFloat (Fin (1 / 4))),
                 (''bestAsk'', JFloat (Fin (1 / 2))), (''lastTradePrice'', JFloat (Fin (1 / 2)))],
           JObj [(''id'', JStr ''m2''), (''best_bid'', JStr ''0.5'')]]"

definition sample_stream :: gamma_stream where
  "sample_stream = new_stream ''https://gamma-api.polymarket.com/'' (Fin 1) 500"

definition sample_input :: "string list \<Rightarrow> cycle_input" where
  "sample_input ids =
     \<lparr>ci_provider = Inr (Some ids), ci_fetch = Inr sample_data, ci_now = Fin 100,
      ci_status_ts = Fin 101\<rparr>"



definition zero_bid_record :: pydict where
  "zero_bid_record =
     [(''id'', JStr ''m1''), (''bestBid'', JInt 0), (''best_bid'', JFloat (Fin (1 / 4)))]"

definition empty_store :: store where
  "empty_store = \<lparr>tape = [], status_log = [], order_rows = []\<rparr>"


declare bitlen.simps [simp del]
declare show_nat.simps [simp del]


section \<open>Properties of the shadow broker\<close>















text \<open>
  Claim C9.  For every market id and every top-of-book or trade tick, \<open>ShadowBroker.on_book\<close>
  and \<open>ShadowBroker.on_trade\<close> return the empty list of fills, and so does the default
  \<open>Broker.on_trade\<close> of the base class.
\<close>

theorem C9_no_fills:
  "shadow_on_book market_id tob = [] \<and>
   shadow_on_trade market_id trade = [] \<and>
   broker_on_trade market_id trade = []"
  by (simp add: shadow_on_book_def shadow_on_trade_def broker_on_trade_def)


text \<open>
  Claim C10.  \<open>place_limit\<close> leaves the request's metadata dict as the caller passed it: the
  marker is written into a new dict object (\<open>dict(req.meta or {})\<close>), so every dict that
  existed before the call, the one \<open>req.meta\<close> refers to among them, has the same items
  afterwards, and what \<open>req.meta or {}\<close> reads is the same before and after.  The request
  itself is a frozen dataclass that the body only reads.  With \<open>meta\<close> absent the recorded
  metadata is the marker alone.
\<close>

theorem C10_request_meta_unmodified:
  assumes "case req_meta req of None \<Rightarrow> True | Some a \<Rightarrow> a < next_addr (w_heap w)"
  shows "(\<forall>b. b < next_addr (w_heap w) \<longrightarrow>
            cells (w_heap (snd (place_limit u now req w))) b = cells (w_heap w) b) \<and>
         meta_or_empty (w_heap (snd (place_limit u now req w))) req = meta_or_empty (w_heap w) req \<and>
         or_meta (last (order_rows (w_store (snd (place_limit u now req w)))))
           = dict_set (meta_or_empty (w_heap w) req) ''execution_mode'' (JStr ''shadow'') \<and>
         (req_meta req = None \<longrightarrow>
            or_meta (last (order_rows (w_store (snd (place_limit u now req w)))))
              = [(''execution_mode'', JStr ''shadow'')])"
  using assms
  by (auto simp: place_limit_def Let_def dict_copy_def heap_setitem_def insert_order_def
      meta_or_empty_def dict_set_def split: prod.splits option.splits)

theorem C10_request_meta_unmodified_witness:
  "(let h = \<lparr>cells = (\<lambda>_. [])(0 := [(''strategy'', JStr ''mm'')]), next_addr = 1\<rparr>;
        w = \<lparr>w_heap = h, w_store = \<lparr>tape = [], status_log = [], order_rows = []\<rparr>, w_log = []\<rparr>;
        req = \<lparr>req_market_id = ''m1'', req_side = Buy, req_price = Fin (1 / 2),
               req_size = Fin 10, req_meta = Some 0\<rparr>;
        w' = snd (place_limit 7 (Fin 1700000000) req w)
    in (case req_meta req of None \<Rightarrow> True | Some a \<Rightarrow> a < next_addr (w_heap w)) \<and>
       cells (w_heap w') 0 = [(''strategy'', JStr ''mm'')] \<and>
       meta_or_empty (w_heap w') req = [(''strategy'', JStr ''mm'')] \<and>
       or_meta (last (order_rows (w_store w')))
         = [(''strategy'', JStr ''mm''), (''execution_mode'', JStr ''shadow'')])"
  using C10_request_meta_unmodified
    [where req = "\<lparr>req_market_id = ''m1'', req_side = Buy, req_price = Fin (1 / 2),
           req_size = Fin 10, req_meta = Some 0\<rparr>"
       and w = "\<lparr>w_heap = \<lparr>cells = (\<lambda>_. [])(0 := [(''strategy'', JStr ''mm'')]), next_addr = 1\<rparr>,
          w_store = \<lparr>tape = [], status_log = [], order_rows = []\<rparr>, w_log = []\<rparr>"
       and u = 7 and now = "Fin 1700000000"]
  by (simp add: Let_def meta_or_empty_def dict_set_def)


section \<open>Properties of the feed\<close>


subsection \<open>One pass of the loop body\<close>





lemma book_markets_process_market:
  "book_markets (ca_events (process_market B now by_id acc k)) =
     book_markets (ca_events acc) @ (if found by_id k then [k] else [])"
  by (auto simp: process_market_def found_def observe_trade_def observe_book_def Let_def
      book_markets_def split: option.splits)

lemma filter_is_book_process_market:
  "filter is_book (ca_events (process_market B now by_id acc k)) =
     filter is_book (ca_events acc) @
       (if found by_id k then [BookEvent ''tob'' k (tob_of B now (the (by_id k)))] else [])"
  by (auto simp: process_market_def found_def observe_trade_def observe_book_def Let_def tob_of_def
      split: option.splits)

subsection \<open>The loop over the requested markets\<close>

lemma process_markets_Nil: "process_markets B now by_id [] acc = acc"
  by (simp add: process_markets_def)

lemma process_markets_Cons:
  "process_markets B now by_id (k # ks) acc =
     process_markets B now by_id ks (process_market B now by_id acc k)"
  by (simp add: process_markets_def)



lemma book_markets_process_markets:
  "book_markets (ca_events (process_markets B now by_id want acc)) =
     book_markets (ca_events acc) @ filter (found by_id) want"
  by (induction want arbitrary: acc)
     (simp_all add: process_markets_Nil process_markets_Cons book_markets_process_market)

lemma count_list_filter: "count_list (filter P xs) k = (if P k then count_list xs k else 0)"
  by (induction xs) auto

lemma filter_is_book_process_markets:
  "filter is_book (ca_events (process_markets B now by_id want acc)) =
     filter is_book (ca_events acc) @
       map (\<lambda>k. BookEvent ''tob'' k (tob_of B now (the (by_id k)))) (filter (found by_id) want)"
  by (induction want arbitrary: acc)
     (simp_all add: process_markets_Nil process_markets_Cons filter_is_book_process_market)


subsection \<open>Markets do not interfere\<close>











subsection \<open>Trade events and tape rows of a market over a cycle\<close>














subsection \<open>The lookup and the cycle\<close>




lemma cycle_fetched:
  assumes "ci_provider c = Inr ids" "ci_fetch c = Inr data"
  shows "cr_events (cycle B c gs s) =
           ca_events (process_markets B (ci_now c) (build_by_id B data) (want_of ids) (start_acc gs s))"
    and "cr_stream (cycle B c gs s) =
           ca_stream (process_markets B (ci_now c) (build_by_id B data) (want_of ids) (start_acc gs s))"
    and "tape (cr_store (cycle B c gs s)) =
           tape (ca_store (process_markets B (ci_now c) (build_by_id B data) (want_of ids) (start_acc gs s)))"
    and "cr_raised (cycle B c gs s) = None"
  using assms
  by (simp_all add: cycle_def try_body_def Let_def upsert_runtime_status_def process_markets_Nil
      start_acc_def)



subsection \<open>A snapshot observed again\<close>






subsection \<open>The worked examples\<close>

lemma sample_by_id_m1:
  "build_by_id example_builtins sample_data ''m1'' =
     Some [(''id'', JStr ''m1''), (''bestBid'', JFloat (Fin (1 / 4))),
           (''bestAsk'', JFloat (Fin (1 / 2))), (''lastTradePrice'', JFloat (Fin (1 / 2)))]"
  by (simp add: build_by_id_def sample_data_def add_record_def dict_get_def py_str_def)

lemma sample_by_id_m2:
  "build_by_id example_builtins sample_data ''m2'' =
     Some [(''id'', JStr ''m2''), (''best_bid'', JStr ''0.5'')]"
  by (simp add: build_by_id_def sample_data_def add_record_def dict_get_def py_str_def)

lemma sample_by_id_other:
  "k \<noteq> ''m1'' \<Longrightarrow> k \<noteq> ''m2'' \<Longrightarrow> build_by_id example_builtins sample_data k = None"
  by (simp add: build_by_id_def sample_data_def add_record_def dict_get_def py_str_def)

lemma sample_found:
  "found (build_by_id example_builtins sample_data) k \<longleftrightarrow> k = ''m1'' \<or> k = ''m2''"
  by (cases "k = ''m1''"; cases "k = ''m2''")
     (simp_all add: found_def sample_by_id_m1 sample_by_id_m2 sample_by_id_other)

lemma sample_input_simps:
  "ci_provider (sample_input ids) = Inr (Some ids)"
  "ci_fetch (sample_input ids) = Inr sample_data"
  "ci_now (sample_input ids) = Fin 100"
  by (simp_all add: sample_input_def)









subsection \<open>One BookEvent for every requested entry found\<close>

text \<open>
  Claim C1, as amended.  In a cycle whose fetch succeeds, the \<open>BookEvent\<close>s yielded are, in
  order, one for every entry of the requested list that is not blank and is found in the
  snapshot lookup, whatever the stored pair was.  So their number is the number of such
  entries, a market gets as many \<open>BookEvent\<close>s as the list names it (exactly one when it is
  named once), and a market that is not found gets none.
\<close>

theorem C1_book_event_per_requested_entry:
  assumes "ci_provider c = Inr ids" and "ci_fetch c = Inr data"
  shows "filter is_book (cr_events (cycle B c gs s)) =
           map (\<lambda>k. BookEvent ''tob'' k (tob_of B (ci_now c) (the (build_by_id B data k))))
             (filter (found (build_by_id B data)) (want_of ids)) \<and>
         length (filter is_book (cr_events (cycle B c gs s))) =
           length (filter (found (build_by_id B data)) (want_of ids)) \<and>
         (\<forall>k. found (build_by_id B data) k \<longrightarrow>
            count_list (book_markets (cr_events (cycle B c gs s))) k = count_list (want_of ids) k) \<and>
         (\<forall>k. \<not> found (build_by_id B data) k \<longrightarrow>
            count_list (book_markets (cr_events (cycle B c gs s))) k = 0) \<and>
         (\<forall>k. found (build_by_id B data) k \<and> count_list (want_of ids) k = 1 \<longrightarrow>
            count_list (book_markets (cr_events (cycle B c gs s))) k = 1)"
proof -
  let ?by_id = "build_by_id B data"
  note r = cycle_fetched [OF assms, of B gs s]
  have ev: "filter is_book (cr_events (cycle B c gs s)) =
           map (\<lambda>k. BookEvent ''tob'' k (tob_of B (ci_now c) (the (?by_id k))))
             (filter (found ?by_id) (want_of ids))"
    by (simp add: r(1) filter_is_book_process_markets start_acc_def)
  have bm: "book_markets (cr_events (cycle B c gs s)) = filter (found ?by_id) (want_of ids)"
    using book_markets_process_markets [of B "ci_now c" ?by_id "want_of ids" "start_acc gs s"]
    by (simp add: r(1) start_acc_def book_markets_def)
  have len: "length (filter is_book (cr_events (cycle B c gs s))) =
           length (filter (found ?by_id) (want_of ids))"
    by (simp add: ev)
  show ?thesis
    using ev len by (simp add: bm count_list_filter)
qed

text \<open>The claim as stated fails for a requested list that names a market twice: the
  market is in the list and in the lookup, and the cycle yields two \<open>BookEvent\<close>s for it.\<close>

theorem C1_counterexample_id_listed_twice:
  "found (build_by_id example_builtins sample_data) ''m1'' \<and>
   count_list (book_markets (cr_events
      (cycle example_builtins (sample_input [''m1'', ''m1'']) sample_stream empty_store))) ''m1'' = 2"
proof -
  have w: "want_of (Some [''m1'', ''m1'']) = [''m1'', ''m1'']"
    by (simp add: want_of_def blank_def py_isspace_def)
  have "book_markets (cr_events
      (cycle example_builtins (sample_input [''m1'', ''m1'']) sample_stream empty_store))
        = [''m1'', ''m1'']"
    using book_markets_process_markets [of example_builtins "Fin 100"
        "build_by_id example_builtins sample_data" "[''m1'', ''m1'']"
        "start_acc sample_stream empty_store"]
    by (simp add: cycle_fetched [OF sample_input_simps(1,2)] sample_input_simps w sample_found
        start_acc_def book_markets_def)
  then show ?thesis
    by (simp add: sample_found)
qed

theorem C1_book_event_per_requested_entry_witness:
  "ci_provider (sample_input [''m1'', ''  '', ''m9'', ''m2'']) = Inr (Some [''m1'', ''  '', ''m9'', ''m2'']) \<and>
   ci_fetch (sample_input [''m1'', ''  '', ''m9'', ''m2'']) = Inr sample_data \<and>
   want_of (Some [''m1'', ''  '', ''m9'', ''m2'']) = [''m1'', ''m9'', ''m2''] \<and>
   filter (found (build_by_id example_builtins sample_data)) [''m1'', ''m9'', ''m2''] = [''m1'', ''m2''] \<and>
   length (filter is_book (cr_events
      (cycle example_builtins (sample_input [''m1'', ''  '', ''m9'', ''m2'']) sample_stream empty_store))) = 2 \<and>
   count_list (book_markets (cr_events
      (cycle example_builtins (sample_input [''m1'', ''  '', ''m9'', ''m2'']) sample_stream empty_store))) ''m2'' = 1"
proof -
  have w: "want_of (Some [''m1'', ''  '', ''m9'', ''m2'']) = [''m1'', ''m9'', ''m2'']"
    by (simp add: want_of_def blank_def py_isspace_def)
  show ?thesis
    using C1_book_event_per_requested_entry [OF sample_input_simps(1,2),
        of example_builtins "[''m1'', ''  '', ''m9'', ''m2'']" sample_stream empty_store]
    by (simp add: w sample_found sample_input_simps)
qed


subsection \<open>Tape rows of kind tob\<close>





subsection \<open>Trade events\<close>




subsection \<open>Field resolution\<close>

lemma parse_or:
  "truthy (dict_get m k1) \<Longrightarrow> to_float B (py_or (dict_get m k1) (dict_get m k2)) = to_float B (dict_get m k1)"
  "\<not> truthy (dict_get m k1) \<Longrightarrow> to_float B (py_or (dict_get m k1) (dict_get m k2)) = to_float B (dict_get m k2)"
  by (simp_all add: py_or_def)

lemma parse_agrees_with_spec:
  assumes "map_of m k1 = None \<or> truthy (dict_get m k1)"
  shows "to_float B (py_or (dict_get m k1) (dict_get m k2)) = spec_parse B m [k1, k2]"
  using assms
  by (auto simp: py_or_def spec_parse_def dict_get_def truthy_def split: option.splits)

text \<open>
  Claim C4, as amended.  Each of the three price attributes is resolved by
  first-truthy-wins over its two spellings: the value under the camelCase name when that
  value is truthy, otherwise whatever \<open>get\<close> returns for the snake-case name.  The result is
  coerced by \<open>_to_float\<close>, which never raises: \<open>None\<close>, text that is no number, an int beyond
  the doubles, a list and a dict all give an absent value.  This is the spec's
  first-present-wins lookup whenever the camelCase field is missing or truthy; a camelCase
  value that is present but falsy (\<open>None\<close>, \<open>False\<close>, \<open>0\<close>, \<open>0.0\<close>, empty text, list or dict) is
  passed over.
\<close>

theorem C4_first_truthy_spelling_wins:
  "(truthy (dict_get m ''bestBid'') \<longrightarrow> parse_best_bid B m = to_float B (dict_get m ''bestBid'')) \<and>
   (\<not> truthy (dict_get m ''bestBid'') \<longrightarrow> parse_best_bid B m = to_float B (dict_get m ''best_bid'')) \<and>
   (truthy (dict_get m ''bestAsk'') \<longrightarrow> parse_best_ask B m = to_float B (dict_get m ''bestAsk'')) \<and>
   (\<not> truthy (dict_get m ''bestAsk'') \<longrightarrow> parse_best_ask B m = to_float B (dict_get m ''best_ask'')) \<and>
   (truthy (dict_get m ''lastTradePrice'') \<longrightarrow>
      parse_last_trade_px B m = to_float B (dict_get m ''lastTradePrice'')) \<and>
   (\<not> truthy (dict_get m ''lastTradePrice'') \<longrightarrow>
      parse_last_trade_px B m = to_float B (dict_get m ''last_trade_price'')) \<and>
   (map_of m ''bestBid'' = None \<or> truthy (dict_get m ''bestBid'') \<longrightarrow>
      parse_best_bid B m = spec_parse B m [''bestBid'', ''best_bid'']) \<and>
   (map_of m ''bestAsk'' = None \<or> truthy (dict_get m ''bestAsk'') \<longrightarrow>
      parse_best_ask B m = spec_parse B m [''bestAsk'', ''best_ask'']) \<and>
   (map_of m ''lastTradePrice'' = None \<or> truthy (dict_get m ''lastTradePrice'') \<longrightarrow>
      parse_last_trade_px B m = spec_parse B m [''lastTradePrice'', ''last_trade_price'']) \<and>
   to_float B JNull = None \<and>
   (\<forall>s. float_of_str B s = None \<longrightarrow> to_float B (JStr s) = None) \<and>
   (\<forall>i. float_of_int i = None \<longrightarrow> to_float B (JInt i) = None) \<and>
   (\<forall>xs. to_float B (JArr xs) = None) \<and>
   (\<forall>d. to_float B (JObj d) = None) \<and>
   (\<forall>v. truthy v \<longleftrightarrow>
      v \<noteq> JNull \<and> v \<noteq> JBool False \<and> v \<noteq> JInt 0 \<and> v \<noteq> JFloat (Fin 0) \<and> v \<noteq> JStr [] \<and>
      v \<noteq> JArr [] \<and> v \<noteq> JObj [])"
proof -
  have t: "\<forall>v. truthy v \<longleftrightarrow>
      v \<noteq> JNull \<and> v \<noteq> JBool False \<and> v \<noteq> JInt 0 \<and> v \<noteq> JFloat (Fin 0) \<and> v \<noteq> JStr [] \<and>
      v \<noteq> JArr [] \<and> v \<noteq> JObj []"
  proof
    fix v show "truthy v \<longleftrightarrow>
      v \<noteq> JNull \<and> v \<noteq> JBool False \<and> v \<noteq> JInt 0 \<and> v \<noteq> JFloat (Fin 0) \<and> v \<noteq> JStr [] \<and>
      v \<noteq> JArr [] \<and> v \<noteq> JObj []"
      by (cases v) (simp_all add: truthy_def)
  qed
  have c: "to_float B JNull = None"
      "\<forall>s. float_of_str B s = None \<longrightarrow> to_float B (JStr s) = None"
      "\<forall>i. float_of_int i = None \<longrightarrow> to_float B (JInt i) = None"
      "\<forall>xs. to_float B (JArr xs) = None"
      "\<forall>d. to_float B (JObj d) = None"
    by (simp_all add: to_float_def)
  show ?thesis
    using t c
    by (simp add: parse_best_bid_def parse_best_ask_def parse_last_trade_px_def parse_or
        parse_agrees_with_spec del: spec_first_present.simps)
qed

text \<open>The claim as stated fails for a record whose \<open>bestBid\<close> is \<open>0\<close> and whose \<open>best_bid\<close> is
  \<open>0.25\<close>: the first spelling is present and coerces to \<open>0.0\<close>, which first-present-wins
  would use, but the code uses \<open>0.25\<close>.\<close>

theorem C4_counterexample_zero_bid:
  "map_of zero_bid_record ''bestBid'' = Some (JInt 0) \<and>
   to_float example_builtins (JInt 0) = Some (Fin 0) \<and>
   spec_parse example_builtins zero_bid_record [''bestBid'', ''best_bid''] = Some (Fin 0) \<and>
   parse_best_bid example_builtins zero_bid_record = Some (Fin (1 / 4))"
  by (simp add: zero_bid_record_def spec_parse_def to_float_def float_of_int_def round_double_def
      parse_best_bid_def py_or_def dict_get_def truthy_def)

theorem C4_first_truthy_spelling_wins_witness:
  "truthy (dict_get [(''id'', JStr ''m2''), (''bestBid'', JFloat (Fin (1 / 4))), (''best_bid'', JStr ''0.5'')] ''bestBid'') \<and>
   parse_best_bid example_builtins
     [(''id'', JStr ''m2''), (''bestBid'', JFloat (Fin (1 / 4))), (''best_bid'', JStr ''0.5'')] = Some (Fin (1 / 4)) \<and>
   \<not> truthy (dict_get zero_bid_record ''bestBid'') \<and>
   parse_best_bid example_builtins zero_bid_record = Some (Fin (1 / 4)) \<and>
   \<not> truthy (dict_get [(''id'', JStr ''m2''), (''bestAsk'', JStr []), (''best_ask'', JStr ''n/a'')] ''bestAsk'') \<and>
   float_of_str example_builtins ''n/a'' = None \<and>
   parse_best_ask example_builtins
     [(''id'', JStr ''m2''), (''bestAsk'', JStr []), (''best_ask'', JStr ''n/a'')] = None \<and>
   map_of [(''id'', JStr ''m2''), (''last_trade_price'', JStr ''0.5'')] ''lastTradePrice'' = None \<and>
   parse_last_trade_px example_builtins [(''id'', JStr ''m2''), (''last_trade_price'', JStr ''0.5'')]
     = Some (Fin (1 / 2)) \<and>
   spec_parse example_builtins [(''id'', JStr ''m2''), (''last_trade_price'', JStr ''0.5'')]
     [''lastTradePrice'', ''last_trade_price''] = Some (Fin (1 / 2))"
  using C4_first_truthy_spelling_wins
      [of "[(''id'', JStr ''m2''), (''bestBid'', JFloat (Fin (1 / 4))), (''best_bid'', JStr ''0.5'')]"
          example_builtins]
    C4_first_truthy_spelling_wins [of zero_bid_record example_builtins]
    C4_first_truthy_spelling_wins
      [of "[(''id'', JStr ''m2''), (''bestAsk'', JStr []), (''best_ask'', JStr ''n/a'')]" example_builtins]
    C4_first_truthy_spelling_wins
      [of "[(''id'', JStr ''m2''), (''last_trade_price'', JStr ''0.5'')]" example_builtins]
  by (simp add: zero_bid_record_def dict_get_def truthy_def to_float_def example_builtins_def
      spec_parse_def)


subsection \<open>Side inference\<close>

text \<open>The literals \<open>0.40\<close>, \<open>0.42\<close>, \<open>0.41\<close> and \<open>1e-9\<close> denote the doubles nearest to them.\<close>

lemma lit_040: "round_double (2 / 5) = Fin (3602879701896397 / 2 ^ 53)"
  by code_simp

lemma lit_042: "round_double (21 / 50) = Fin (7566047373982433 / 2 ^ 54)"
  by code_simp

lemma lit_041: "round_double (41 / 100) = Fin (7385903388887613 / 2 ^ 54)"
  by code_simp

lemma lit_1e_9: "round_double (1 / 1000000000) = c_1e_9"
  by code_simp

lemma mid_040_042:
  "midpoint (Fin (3602879701896397 / 2 ^ 53)) (Fin (7566047373982433 / 2 ^ 54))
     = Fin (7385903388887614 / 2 ^ 54)"
  by code_simp

lemma side_041:
  "infer_side (Some (Fin (3602879701896397 / 2 ^ 53))) (Some (Fin (7566047373982433 / 2 ^ 54)))
     (Fin (7385903388887613 / 2 ^ 54)) = Sell"
  by code_simp

lemma side_042:
  "infer_side (Some (Fin (3602879701896397 / 2 ^ 53))) (Some (Fin (7566047373982433 / 2 ^ 54)))
     (Fin (7566047373982433 / 2 ^ 54)) = Buy"
  by code_simp

lemma side_040:
  "infer_side (Some (Fin (3602879701896397 / 2 ^ 53))) (Some (Fin (7566047373982433 / 2 ^ 54)))
     (Fin (3602879701896397 / 2 ^ 53)) = Sell"
  by code_simp

lemma hits_041:
  "\<not> hits (Fin (7385903388887613 / 2 ^ 54)) (Some (Fin (7566047373982433 / 2 ^ 54))) \<and>
   \<not> hits (Fin (7385903388887613 / 2 ^ 54)) (Some (Fin (3602879701896397 / 2 ^ 53)))"
  by code_simp

lemma hits_042:
  "hits (Fin (7566047373982433 / 2 ^ 54)) (Some (Fin (7566047373982433 / 2 ^ 54)))"
  by code_simp

lemma infer_side_cases:
  "(hits px ask \<longrightarrow> infer_side bid ask px = Buy) \<and>
   (\<not> hits px ask \<and> hits px bid \<longrightarrow> infer_side bid ask px = Sell) \<and>
   (\<forall>b a. \<not> hits px (Some a) \<and> \<not> hits px (Some b) \<longrightarrow>
      infer_side (Some b) (Some a) px = (if f_ge px (midpoint b a) then Buy else Sell)) \<and>
   (\<not> hits px ask \<and> \<not> hits px bid \<and> (bid = None \<or> ask = None) \<longrightarrow>
      infer_side bid ask px = Buy)"
  by (auto simp: infer_side_def split: option.splits)

text \<open>
  Claim C5, as amended.  The side of an emitted \<open>TradeEvent\<close> is \<open>infer_side\<close> of the parsed
  bid, ask and last-trade price, with this precedence, every step computed in doubles: buy
  if \<open>abs(px - ask) < 1e-9\<close>; else sell if \<open>abs(px - bid) < 1e-9\<close>; else, with bid and ask both
  present, buy if \<open>px >= 0.5 * (bid + ask)\<close> and sell otherwise; else buy.  With bid \<open>0.40\<close> and
  ask \<open>0.42\<close> a price of \<open>0.42\<close> gives buy and \<open>0.40\<close> gives sell; \<open>0.41\<close> gives sell, because
  the sum \<open>0.40 + 0.42\<close> is a tie that rounds up, so that the computed midpoint lies one unit
  in the last place above the double \<open>0.41\<close>.
\<close>

theorem C5_side_inference_precedence:
  "(hits px ask \<longrightarrow> infer_side bid ask px = Buy) \<and>
   (\<not> hits px ask \<and> hits px bid \<longrightarrow> infer_side bid ask px = Sell) \<and>
   (\<forall>b a. \<not> hits px (Some a) \<and> \<not> hits px (Some b) \<longrightarrow>
      infer_side (Some b) (Some a) px = (if f_ge px (midpoint b a) then Buy else Sell)) \<and>
   (\<not> hits px ask \<and> \<not> hits px bid \<and> (bid = None \<or> ask = None) \<longrightarrow>
      infer_side bid ask px = Buy) \<and>
   \<not> hits px None \<and>
   (\<forall>q. hits px (Some q) \<longleftrightarrow> f_lt (f_abs (f_sub px q)) (round_double (1 / 1000000000))) \<and>
   (\<forall>b a. midpoint b a = f_mul (Fin (1 / 2)) (f_add b a)) \<and>
   tt_side (trade_of B now k m px) = infer_side (parse_best_bid B m) (parse_best_ask B m) px \<and>
   infer_side (Some (round_double (2 / 5))) (Some (round_double (21 / 50))) (round_double (21 / 50)) = Buy \<and>
   infer_side (Some (round_double (2 / 5))) (Some (round_double (21 / 50))) (round_double (2 / 5)) = Sell \<and>
   infer_side (Some (round_double (2 / 5))) (Some (round_double (21 / 50))) (round_double (41 / 100)) = Sell \<and>
   round_double (41 / 100) = Fin (7385903388887613 / 2 ^ 54) \<and>
   midpoint (round_double (2 / 5)) (round_double (21 / 50)) = Fin (7385903388887614 / 2 ^ 54)"
proof -
  have h: "\<not> hits px None"
      "\<forall>q. hits px (Some q) \<longleftrightarrow> f_lt (f_abs (f_sub px q)) (round_double (1 / 1000000000))"
    by (simp_all add: hits_def lit_1e_9)
  have md: "\<forall>b a. midpoint b a = f_mul (Fin (1 / 2)) (f_add b a)"
    by (simp add: midpoint_def c_half_def)
  have sd: "tt_side (trade_of B now k m px) = infer_side (parse_best_bid B m) (parse_best_ask B m) px"
    by (simp add: trade_of_def)
  have ex: "infer_side (Some (round_double (2 / 5))) (Some (round_double (21 / 50))) (round_double (21 / 50)) = Buy"
      "infer_side (Some (round_double (2 / 5))) (Some (round_double (21 / 50))) (round_double (2 / 5)) = Sell"
      "infer_side (Some (round_double (2 / 5))) (Some (round_double (21 / 50))) (round_double (41 / 100)) = Sell"
      "round_double (41 / 100) = Fin (7385903388887613 / 2 ^ 54)"
      "midpoint (round_double (2 / 5)) (round_double (21 / 50)) = Fin (7385903388887614 / 2 ^ 54)"
    by (simp_all only: lit_040 lit_042 lit_041 side_040 side_041 side_042 mid_040_042)
  from infer_side_cases [of px ask bid] h md sd ex show ?thesis
    by blast
qed

text \<open>The claim's third example fails: for \<open>0.41\<close> between \<open>0.40\<close> and \<open>0.42\<close> the code infers
  sell, since \<open>0.41 >= 0.5 * (0.40 + 0.42)\<close> is false in doubles.\<close>

theorem C5_counterexample_midpoint_rounds_up:
  "infer_side (Some (round_double (2 / 5))) (Some (round_double (21 / 50))) (round_double (41 / 100)) = Sell \<and>
   \<not> f_ge (round_double (41 / 100)) (midpoint (round_double (2 / 5)) (round_double (21 / 50)))"
proof -
  have "\<not> f_ge (Fin (7385903388887613 / 2 ^ 54)) (Fin (7385903388887614 / 2 ^ 54))"
    by (simp add: f_ge_def f_eq_def)
  then show ?thesis
    by (simp only: lit_040 lit_042 lit_041 side_041 mid_040_042) simp
qed

theorem C5_side_inference_precedence_witness:
  "hits (round_double (21 / 50)) (Some (round_double (21 / 50))) \<and>
   infer_side (Some (round_double (2 / 5))) (Some (round_double (21 / 50))) (round_double (21 / 50)) = Buy \<and>
   \<not> hits (round_double (41 / 100)) (Some (round_double (21 / 50))) \<and>
   \<not> hits (round_double (41 / 100)) (Some (round_double (2 / 5))) \<and>
   \<not> hits (round_double (41 / 100)) None \<and>
   infer_side (Some (round_double (2 / 5))) (Some (round_double (21 / 50))) (round_double (41 / 100))
     = (if f_ge (round_double (41 / 100)) (midpoint (round_double (2 / 5)) (round_double (21 / 50)))
        then Buy else Sell) \<and>
   infer_side None (Some (round_double (21 / 50))) (round_double (41 / 100)) = Buy"
  using C5_side_inference_precedence
      [of "round_double (21 / 50)" "Some (round_double (21 / 50))" "Some (round_double (2 / 5))"]
    C5_side_inference_precedence
      [of "round_double (41 / 100)" "Some (round_double (21 / 50))" "Some (round_double (2 / 5))"]
    C5_side_inference_precedence
      [of "round_double (41 / 100)" "Some (round_double (21 / 50))" None]
    hits_041 hits_042
  by (simp add: lit_040 lit_042 lit_041)


subsection \<open>A cycle that fails\<close>








subsection \<open>A requested market that is absent\<close>



end
